theory Spec2Isabelle
  imports Complex_Main
begin

section \<open>JavaScript values the service handles\<close>

text \<open>
  The service (\<open>auth-token.service.ts\<close>, class \<open>TokenAuthenticationService\<close>) holds a
  bearer token, publishes an authenticated flag and a user, and keeps the token fresh
  with a self-rescheduling timer. The model restricts every value to its declared
  TypeScript type, extended by \<open>undefined\<close> for a field that is absent:
  \<^item> a \<open>number\<close> is a finite value \<open>Num r\<close>, one of the two infinities, or \<open>NaN\<close>; the
    two zeros are not told apart;
  \<^item> \<open>None\<close> stands for \<open>undefined\<close>, both for an absent refresh period and for an
    absent token.

  Time is not modelled: a timer is the delay, in milliseconds, that was handed to
  \<open>setTimeout\<close>, and it may fire at any later moment.
\<close>

datatype number = Num real | Infinity | NegInfinity | NaN

text \<open>\<open>ToBoolean\<close> on a number: \<open>0\<close> and \<open>NaN\<close> are falsy, every other number is truthy.\<close>

fun truthy_number :: "number \<Rightarrow> bool" where
  "truthy_number (Num r) = (r \<noteq> 0)"
| "truthy_number Infinity = True"
| "truthy_number NegInfinity = True"
| "truthy_number NaN = False"

text \<open>The test \<open>if (refreshPeriod)\<close>: \<open>undefined\<close> is falsy.\<close>

definition truthy :: "number option \<Rightarrow> bool" where
  "truthy v = (case v of None \<Rightarrow> False | Some n \<Rightarrow> truthy_number n)"

text \<open>\<open>ToNumber\<close> on a number or \<open>undefined\<close>.\<close>

definition to_number :: "number option \<Rightarrow> number" where
  "to_number v = (case v of None \<Rightarrow> NaN | Some n \<Rightarrow> n)"

text \<open>
  \<open>Number.isSafeInteger\<close>: an integer of magnitude at most \<open>2^53 - 1\<close>. Every such
  integer is a double.
\<close>

definition isSafeInteger :: "real \<Rightarrow> bool" where
  "isSafeInteger x = (frac x = 0 \<and> \<bar>x\<bar> \<le> 9007199254740991)"

text \<open>
  The operator \<open>*\<close> computes in IEEE 754 doubles: the result is the double nearest to
  the exact product, or an infinity beyond the range. The model gives the value where
  no rounding can occur, that is when both factors and their exact product are safe
  integers (\<open>Exactly\<close>), and for the infinities and \<open>NaN\<close>. Every other product of two
  finite numbers is kept as \<open>Rounded a b\<close>: the double the engine computes for \<open>a * b\<close>,
  which the model does not evaluate (\<open>1.005 * 1000\<close> is \<open>1004.9999999999999\<close>, and
  \<open>1e308 * 1000\<close> is \<open>Infinity\<close>).
\<close>

datatype product = Exactly number | Rounded real real

fun times_number :: "number \<Rightarrow> number \<Rightarrow> product" where
  "times_number (Num a) (Num b) =
     (if isSafeInteger a \<and> isSafeInteger b \<and> isSafeInteger (a * b)
      then Exactly (Num (a * b)) else Rounded a b)"
| "times_number NaN y = Exactly NaN"
| "times_number x NaN = Exactly NaN"
| "times_number Infinity (Num b) =
     Exactly (if b = 0 then NaN else if 0 < b then Infinity else NegInfinity)"
| "times_number NegInfinity (Num b) =
     Exactly (if b = 0 then NaN else if 0 < b then NegInfinity else Infinity)"
| "times_number (Num a) Infinity =
     Exactly (if a = 0 then NaN else if 0 < a then Infinity else NegInfinity)"
| "times_number (Num a) NegInfinity =
     Exactly (if a = 0 then NaN else if 0 < a then NegInfinity else Infinity)"
| "times_number Infinity Infinity = Exactly Infinity"
| "times_number Infinity NegInfinity = Exactly NegInfinity"
| "times_number NegInfinity Infinity = Exactly NegInfinity"
| "times_number NegInfinity NegInfinity = Exactly Infinity"

text \<open>\<open>ToString\<close> on a string or \<open>undefined\<close>, as \<open>"bearer " + this.accessToken\<close> applies it.\<close>

definition to_string :: "string option \<Rightarrow> string" where
  "to_string v = (case v of None \<Rightarrow> ''undefined'' | Some s \<Rightarrow> s)"

text \<open>
  \<open>String.prototype.indexOf\<close> for a one-character needle: the index of the first
  occurrence, or \<open>-1\<close>.
\<close>

fun indexOf :: "string \<Rightarrow> char \<Rightarrow> int" where
  "indexOf [] c = - 1"
| "indexOf (x # xs) c =
     (if x = c then 0 else (let r = indexOf xs c in if r < 0 then - 1 else r + 1))"

text \<open>
  The errors of the program: \<open>new Error(msg)\<close>, the \<open>TypeError\<close> of a property read on
  \<open>null\<close> or \<open>undefined\<close>, and the \<open>HttpErrorResponse\<close> of a failed request with its
  status (0 for a network error). Each of them is an object, so reading \<open>error.status\<close>
  never throws.
\<close>

datatype js_error = Error string | TypeError string | HttpErrorResponse int

text \<open>\<open>error.status\<close>: only an \<open>HttpErrorResponse\<close> has one.\<close>

fun status :: "js_error \<Rightarrow> int option" where
  "status (HttpErrorResponse n) = Some n"
| "status _ = None"

section \<open>The reactive primitive\<close>

text \<open>
  An rxjs \<open>BehaviorSubject\<close>, as far as the service uses it: the value it holds, the
  values passed to \<open>next\<close> (oldest first) and whether \<open>complete\<close> or \<open>error\<close> stopped it.
\<close>

record 'a BehaviorSubject =
  held :: 'a
  published :: "'a list"
  isStopped :: bool

definition new_BehaviorSubject :: "'a \<Rightarrow> 'a BehaviorSubject" where
  "new_BehaviorSubject v = \<lparr>held = v, published = [], isStopped = False\<rparr>"

definition next_value :: "'a \<Rightarrow> 'a BehaviorSubject \<Rightarrow> 'a BehaviorSubject" where
  "next_value v s =
     (if isStopped s then s else s\<lparr>held := v, published := published s @ [v]\<rparr>)"

definition getValue :: "'a BehaviorSubject \<Rightarrow> 'a" where
  "getValue s = held s"

text \<open>What a new subscriber of the subject's observable receives at once.\<close>

datatype 'a notification = Next 'a | Complete

definition subscribe :: "'a BehaviorSubject \<Rightarrow> 'a notification list" where
  "subscribe s = (if isStopped s then [Complete] else [Next (held s)])"

section \<open>Configuration, service and browser\<close>

text \<open>
  \<open>ConfigService\<close> is not part of the file; the model takes what its four getters
  return. \<open>'u\<close> is the \<open>User\<close> model, \<open>None\<close> of \<open>'u option\<close> is \<open>null\<close>.
\<close>

record 'u ConfigService =
  authToken :: "string option"
  authRefreshPeriod :: "number option"
  user :: "'u option"
  logoutUrl :: string

text \<open>The fields of the class (\<open>authenticated\<close> and \<open>authenticatedUser\<close> are views of the subjects).\<close>

record 'u TokenAuthenticationService =
  authenticatedSubject :: "bool BehaviorSubject"
  authenticatedUserSubject :: "'u option BehaviorSubject"
  accessToken :: "string option"
  config :: "'u ConfigService"

text \<open>
  The value of the \<open>headers\<close> option: an object literal, or an instance of the browser's
  Fetch class \<open>Headers\<close> built from one. The file imports only \<open>HttpClient\<close> and
  \<open>HttpResponse\<close> from Angular, so \<open>new Headers(...)\<close> in \<open>refreshToken\<close> is the Fetch
  class.
\<close>

datatype headers_init =
    ObjectLiteral "(string \<times> string) list"
  | FetchHeaders "(string \<times> string) list"

text \<open>The options object handed to \<open>http.get\<close>.\<close>

record options =
  observe_option :: string
  headers_option :: headers_init

text \<open>
  Angular's \<open>HttpClient\<close> (not part of the file) turns a \<open>headers\<close> option that is not
  an \<open>HttpHeaders\<close> into one by reading the object's own enumerable keys
  (\<open>Object.keys\<close>). An object literal has its entries as keys; a Fetch \<open>Headers\<close>
  instance keeps its entries internally and has no own enumerable key.
\<close>

fun HttpHeaders :: "headers_init \<Rightarrow> (string \<times> string) list" where
  "HttpHeaders (ObjectLiteral entries) = entries"
| "HttpHeaders (FetchHeaders entries) = []"

text \<open>The request \<open>HttpClient\<close> puts in flight: its URL, what is observed, its headers.\<close>

record request =
  url :: string
  observe :: string
  headers :: "(string \<times> string) list"

text \<open>The lines written by \<open>console.info\<close>, and an error no handler caught.\<close>

datatype log =
    WillRefresh "number option"
  | NoRefreshPeriod
  | Refreshing string
  | ErrorRefreshing
  | ErrorDetail js_error
  | Uncaught js_error

text \<open>
  The browser around the service: the \<open>href\<close> of each \<open>base\<close> element in document
  order, \<open>location.origin\<close>, \<open>window.location.href\<close>, the delays (in milliseconds) of
  the pending \<open>setTimeout\<close> callbacks, each of which is \<open>() => this.refreshToken()\<close>
  (every delay in the file is a product), the requests in flight and the console.
\<close>

record browser =
  baseElements :: "string list"
  origin :: string
  locationHref :: string
  timers :: "product list"
  requests :: "request list"
  console :: "log list"

definition setTimeout :: "product \<Rightarrow> browser \<Rightarrow> browser" where
  "setTimeout ms b = b\<lparr>timers := timers b @ [ms]\<rparr>"

definition console_info :: "log \<Rightarrow> browser \<Rightarrow> browser" where
  "console_info l b = b\<lparr>console := console b @ [l]\<rparr>"

definition http_get :: "string \<Rightarrow> options \<Rightarrow> browser \<Rightarrow> browser" where
  "http_get u opts b =
     b\<lparr>requests := requests b @
          [\<lparr>url = u, observe = observe_option opts,
            headers = HttpHeaders (headers_option opts)\<rparr>]\<rparr>"

text \<open>A freshly loaded page: no timer, no request, an empty console.\<close>

definition page :: "string list \<Rightarrow> string \<Rightarrow> string \<Rightarrow> browser" where
  "page bases orig href =
     \<lparr>baseElements = bases, origin = orig, locationHref = href,
      timers = [], requests = [], console = []\<rparr>"

type_synonym 'u world = "'u TokenAuthenticationService \<times> browser"

section \<open>The operations of the class\<close>

text \<open>
  The constructor: the field initialisers create the subjects with \<open>false\<close> and \<open>null\<close>,
  then the body stores the token, publishes \<open>true\<close> and the user, and arms one timer
  when the refresh period is truthy.
\<close>

definition constructor :: "'u ConfigService \<Rightarrow> browser \<Rightarrow> 'u world" where
  "constructor cfg b =
     (let this = \<lparr>authenticatedSubject = next_value True (new_BehaviorSubject False),
                  authenticatedUserSubject = next_value (user cfg) (new_BehaviorSubject None),
                  accessToken = authToken cfg,
                  config = cfg\<rparr>;
          refreshPeriod = authRefreshPeriod cfg
      in if truthy refreshPeriod
         then (this, setTimeout (times_number (to_number refreshPeriod) (Num 1000))
                       (console_info (WillRefresh refreshPeriod) b))
         else (this, console_info NoRefreshPeriod b))"

definition isAuthenticated :: "'u world \<Rightarrow> bool BehaviorSubject" where
  "isAuthenticated w = authenticatedSubject (fst w)"

definition getAuthenticatedUser :: "'u world \<Rightarrow> 'u option BehaviorSubject" where
  "getAuthenticatedUser w = authenticatedUserSubject (fst w)"

definition getAuthenticatedUserNow :: "'u world \<Rightarrow> 'u option" where
  "getAuthenticatedUserNow w = getValue (authenticatedUserSubject (fst w))"

text \<open>
  \<open>login\<close> is declared to return a \<open>Promise<User>\<close>; its body is a single \<open>throw\<close>,
  so the call ends in the exception (\<open>Inl\<close>) and no promise is ever returned.
\<close>

datatype 'u promise = Resolved 'u | Rejected js_error

definition login :: "string \<Rightarrow> 'c \<Rightarrow> 'u world \<Rightarrow> js_error + 'u promise" where
  "login usr credential w = Inl (Error ''Not supported.'')"

text \<open>
  What a caller of a method typed \<open>Promise<User>\<close> can meet: the call returns a promise
  that is rejected, or one that resolves, or it throws before returning anything.
\<close>

definition returns_rejected :: "js_error + 'u promise \<Rightarrow> bool" where
  "returns_rejected res =
     (case res of Inl e \<Rightarrow> False | Inr (Resolved u) \<Rightarrow> False | Inr (Rejected e) \<Rightarrow> True)"

definition returns_resolved :: "js_error + 'u promise \<Rightarrow> bool" where
  "returns_resolved res =
     (case res of Inl e \<Rightarrow> False | Inr (Resolved u) \<Rightarrow> True | Inr (Rejected e) \<Rightarrow> False)"

definition logout :: "'u world \<Rightarrow> 'u world" where
  "logout w = (fst w, (snd w)\<lparr>locationHref := logoutUrl (config (fst w))\<rparr>)"

definition injectAuthHeaders :: "'u world \<Rightarrow> (string \<rightharpoonup> string) \<Rightarrow> (string \<rightharpoonup> string)" where
  "injectAuthHeaders w hdrs =
     (let authHeader = ''bearer '' @ to_string (accessToken (fst w))
      in hdrs(''Authorization'' \<mapsto> authHeader))"

definition getAuthenticationSecret :: "'u world \<Rightarrow> string option" where
  "getAuthenticationSecret w = accessToken (fst w)"

text \<open>
  \<open>refreshToken\<close>, up to the moment the request is in flight. Reading \<open>.href\<close> of the
  first \<open>base\<close> element throws when the document has none. The URL is built from the
  browser as it is at the call; the service keeps no copy of it.
\<close>

definition refreshToken :: "'u world \<Rightarrow> js_error + 'u world" where
  "refreshToken w =
     (case baseElements (snd w) of
        [] \<Rightarrow> Inl (TypeError ''Cannot read property href of undefined'')
      | h # _ \<Rightarrow>
          (let base = (if indexOf h (CHR ''/'') = 0 then origin (snd w) @ h else h);
               url = base @ ''token'';
               hdrs = [(''Accept'', ''application/json'')];
               opts = \<lparr>observe_option = ''response'',
                       headers_option = FetchHeaders hdrs\<rparr>
           in Inr (fst w, http_get url opts (console_info (Refreshing url) (snd w)))))"

text \<open>
  The body of a successful response, \<open>response.body\<close>: \<open>None\<close> is \<open>null\<close>, and an object
  is read only through its fields \<open>token\<close> and \<open>tokenRefreshPeriod\<close>, each of which may be
  absent.
\<close>

record auth =
  token :: "string option"
  tokenRefreshPeriod :: "number option"

text \<open>The callback of \<open>.then\<close>: \<open>auth.token\<close> throws on a \<open>null\<close> body, before any write.\<close>

definition then_callback :: "auth option \<Rightarrow> 'u world \<Rightarrow> js_error + 'u world" where
  "then_callback body w =
     (case body of
        None \<Rightarrow> Inl (TypeError ''Cannot read property token of null'')
      | Some a \<Rightarrow>
          (let this = (fst w)\<lparr>accessToken := token a\<rparr>;
               refreshPeriod = tokenRefreshPeriod a
           in if truthy refreshPeriod
              then Inr (this, setTimeout (times_number (to_number refreshPeriod) (Num 1000))
                                (console_info (WillRefresh refreshPeriod) (snd w)))
              else Inr (this, console_info NoRefreshPeriod (snd w))))"

text \<open>The callback of \<open>.catch\<close>; the branch on \<open>error.status === 0\<close> is empty in the source.\<close>

definition catch_callback :: "js_error \<Rightarrow> 'u world \<Rightarrow> 'u world" where
  "catch_callback e w =
     (let b1 = console_info ErrorRefreshing (snd w);
          b2 = console_info (ErrorDetail e) b1;
          b3 = (if status e = Some 0 then b2 else b2)
      in (fst w, setTimeout (times_number (Num 30) (Num 1000)) b3))"

text \<open>
  The promise chain \<open>.then(...).catch(...)\<close>: a resolved request runs the first callback,
  and an error thrown there reaches the second; a rejected request runs the second only.
\<close>

definition resolve :: "auth option \<Rightarrow> 'u world \<Rightarrow> 'u world" where
  "resolve body w =
     (case then_callback body w of Inl e \<Rightarrow> catch_callback e w | Inr w' \<Rightarrow> w')"

definition reject :: "js_error \<Rightarrow> 'u world \<Rightarrow> 'u world" where
  "reject e w = catch_callback e w"

section \<open>The event loop\<close>

text \<open>
  What can happen to a constructed service: a pending timer fires, a request in flight
  gets a 2xx response or fails, the application calls \<open>logout\<close>, or the document's base
  elements and origin change. An event that names no pending timer or request leaves
  the world as it is. The other public methods change nothing.
\<close>

datatype event =
    TimerFires nat
  | Responds nat "auth option"
  | Fails nat js_error
  | Logout
  | DocumentChanges "string list" string

definition remove_nth :: "nat \<Rightarrow> 'a list \<Rightarrow> 'a list" where
  "remove_nth i xs = take i xs @ drop (Suc i) xs"

fun fire :: "event \<Rightarrow> 'u world \<Rightarrow> 'u world" where
  "fire (TimerFires i) w =
     (if i < length (timers (snd w))
      then (let b = (snd w)\<lparr>timers := remove_nth i (timers (snd w))\<rparr>
            in case refreshToken (fst w, b) of
                 Inl e \<Rightarrow> (fst w, console_info (Uncaught e) b)
               | Inr w' \<Rightarrow> w')
      else w)"
| "fire (Responds i body) w =
     (if i < length (requests (snd w))
      then resolve body (fst w, (snd w)\<lparr>requests := remove_nth i (requests (snd w))\<rparr>)
      else w)"
| "fire (Fails i e) w =
     (if i < length (requests (snd w))
      then reject e (fst w, (snd w)\<lparr>requests := remove_nth i (requests (snd w))\<rparr>)
      else w)"
| "fire Logout w = logout w"
| "fire (DocumentChanges bases orig) w =
     (fst w, (snd w)\<lparr>baseElements := bases, origin := orig\<rparr>)"

fun run :: "event list \<Rightarrow> 'u world \<Rightarrow> 'u world" where
  "run [] w = w"
| "run (ev # evs) w = run evs (fire ev w)"

text \<open>The timers and requests outstanding in a world.\<close>

definition outstanding :: "'u world \<Rightarrow> nat" where
  "outstanding w = length (timers (snd w)) + length (requests (snd w))"

section \<open>The request as the specification words it\<close>

text \<open>
  The specification's refresh request, written from its sentences and not from the
  code: when the declared base \<open>h\<close> starts with \<open>/\<close> the origin is put in front of it,
  the segment \<open>token\<close> is appended, the header is \<open>Accept: application/json\<close>, and the
  whole response is asked for. It is compared with the request that \<open>refreshToken\<close>
  puts in flight.
\<close>

definition token_request :: "string \<Rightarrow> string \<Rightarrow> request" where
  "token_request h orig =
     \<lparr>url = (if take 1 h = ''/'' then orig @ h else h) @ ''token'',
      observe = ''response'',
      headers = [(''Accept'', ''application/json'')]\<rparr>"

section \<open>Facts about the values\<close>

lemma truthy_Num: "truthy (Some (Num r)) = (r \<noteq> 0)"
  by (simp add: truthy_def)

lemma truthy_None: "truthy None = False"
  by (simp add: truthy_def)

lemma truthy_NaN: "truthy (Some NaN) = False"
  by (simp add: truthy_def)

lemma to_number_Some: "to_number (Some n) = n"
  by (simp add: to_number_def)

lemma isSafeInteger_1000: "isSafeInteger 1000"
  by (simp add: isSafeInteger_def)

lemma times_1000:
  "times_number (Num r) (Num 1000)
     = (if isSafeInteger r \<and> isSafeInteger (r * 1000)
        then Exactly (Num (r * 1000)) else Rounded r 1000)"
  by (simp add: isSafeInteger_1000)

lemma times_30_1000: "times_number (Num 30) (Num 1000) = Exactly (Num 30000)"
  by (simp add: isSafeInteger_def)

lemma indexOf_nonneg_or_minus: "indexOf s c = - 1 \<or> 0 \<le> indexOf s c"
  by (induction s) (auto simp: Let_def)

lemma indexOf_zero_iff: "(indexOf s c = 0) = (\<exists>t. s = c # t)"
proof (cases s)
  case Nil
  then show ?thesis by simp
next
  case (Cons x xs)
  have "indexOf xs c = - 1 \<or> 0 \<le> indexOf xs c" by (rule indexOf_nonneg_or_minus)
  then show ?thesis using Cons by (auto simp: Let_def)
qed

section \<open>Facts about the handlers and the event loop\<close>

lemmas browser_ops = setTimeout_def console_info_def http_get_def

lemma fst_catch_callback: "fst (catch_callback e w) = fst w"
  by (simp add: catch_callback_def Let_def)

lemma timers_catch_callback:
  "timers (snd (catch_callback e w)) = timers (snd w) @ [Exactly (Num 30000)]"
  by (simp add: catch_callback_def Let_def browser_ops times_30_1000 del: times_number.simps)

lemma requests_catch_callback:
  "requests (snd (catch_callback e w)) = requests (snd w)"
  by (simp add: catch_callback_def Let_def browser_ops)

lemma then_callback_Inr_fst:
  "then_callback body w = Inr w' \<Longrightarrow>
     \<exists>a. body = Some a \<and> fst w' = (fst w)\<lparr>accessToken := token a\<rparr>"
  by (auto simp: then_callback_def Let_def split: option.splits if_splits)

lemma then_callback_Inr_requests:
  "then_callback body w = Inr w' \<Longrightarrow> requests (snd w') = requests (snd w)"
  by (auto simp: then_callback_def Let_def browser_ops split: option.splits if_splits)

lemma then_callback_Inr_timers:
  "then_callback body w = Inr w' \<Longrightarrow>
     length (timers (snd w')) \<le> Suc (length (timers (snd w)))"
  by (auto simp: then_callback_def Let_def browser_ops split: option.splits if_splits)

lemma resolve_requests: "requests (snd (resolve body w)) = requests (snd w)"
  by (auto simp: resolve_def requests_catch_callback then_callback_Inr_requests
      split: sum.splits)

lemma resolve_timers:
  "length (timers (snd (resolve body w))) \<le> Suc (length (timers (snd w)))"
  by (auto simp: resolve_def timers_catch_callback then_callback_Inr_timers
      split: sum.splits)

lemma reject_requests: "requests (snd (reject e w)) = requests (snd w)"
  by (simp add: reject_def requests_catch_callback)

lemma reject_timers:
  "timers (snd (reject e w)) = timers (snd w) @ [Exactly (Num 30000)]"
  by (simp add: reject_def timers_catch_callback)

lemma length_remove_nth: "i < length xs \<Longrightarrow> Suc (length (remove_nth i xs)) = length xs"
  by (auto simp: remove_nth_def)

lemma refreshToken_Inr:
  "refreshToken w = Inr w' \<Longrightarrow>
     fst w' = fst w \<and> timers (snd w') = timers (snd w)
     \<and> length (requests (snd w')) = Suc (length (requests (snd w)))"
  by (auto simp: refreshToken_def Let_def browser_ops split: list.splits)

text \<open>No event adds to the number of outstanding timers and requests.\<close>

lemma outstanding_fire: "outstanding (fire ev w) \<le> outstanding w"
proof (cases ev)
  case (TimerFires i)
  show ?thesis
  proof (cases "i < length (timers (snd w))")
    case True
    let ?b = "(snd w)\<lparr>timers := remove_nth i (timers (snd w))\<rparr>"
    from True have len: "Suc (length (timers ?b)) = length (timers (snd w))"
      by (simp add: length_remove_nth)
    show ?thesis
    proof (cases "refreshToken (fst w, ?b)")
      case (Inl e)
      with True TimerFires len show ?thesis
        by (simp add: outstanding_def Let_def console_info_def)
    next
      case (Inr w')
      from refreshToken_Inr [OF Inr] True TimerFires Inr len show ?thesis
        by (simp add: outstanding_def Let_def)
    qed
  next
    case False
    with TimerFires show ?thesis by simp
  qed
next
  case (Responds i body)
  show ?thesis
  proof (cases "i < length (requests (snd w))")
    case True
    let ?w = "(fst w, (snd w)\<lparr>requests := remove_nth i (requests (snd w))\<rparr>)"
    have "length (timers (snd (resolve body ?w))) \<le> Suc (length (timers (snd w)))"
      using resolve_timers [of body ?w] by simp
    moreover have "Suc (length (requests (snd (resolve body ?w)))) = length (requests (snd w))"
      using True by (simp add: resolve_requests length_remove_nth)
    ultimately show ?thesis using True Responds by (simp add: outstanding_def)
  next
    case False
    with Responds show ?thesis by simp
  qed
next
  case (Fails i e)
  show ?thesis
  proof (cases "i < length (requests (snd w))")
    case True
    let ?w = "(fst w, (snd w)\<lparr>requests := remove_nth i (requests (snd w))\<rparr>)"
    have "Suc (length (requests (snd (reject e ?w)))) = length (requests (snd w))"
      using True by (simp add: reject_requests length_remove_nth)
    then show ?thesis using True Fails by (simp add: outstanding_def reject_timers)
  next
    case False
    with Fails show ?thesis by simp
  qed
next
  case Logout
  then show ?thesis by (simp add: outstanding_def logout_def)
next
  case (DocumentChanges bases orig)
  then show ?thesis by (simp add: outstanding_def)
qed

lemma outstanding_run: "outstanding (run evs w) \<le> outstanding w"
proof (induction evs arbitrary: w)
  case Nil
  show ?case by simp
next
  case (Cons ev evs)
  have "outstanding (run evs (fire ev w)) \<le> outstanding (fire ev w)" by (rule Cons.IH)
  also have "\<dots> \<le> outstanding w" by (rule outstanding_fire)
  finally show ?case by simp
qed

lemma outstanding_constructor: "outstanding (constructor cfg (page bases orig href)) \<le> 1"
  by (simp add: outstanding_def constructor_def Let_def page_def browser_ops)

lemma timers_fire_other:
  "length (timers (snd (fire (TimerFires i) w))) \<le> length (timers (snd w))"
  "timers (snd (fire Logout w)) = timers (snd w)"
  "timers (snd (fire (DocumentChanges bases orig) w)) = timers (snd w)"
  by (auto simp: Let_def logout_def console_info_def remove_nth_def
      split: sum.splits dest!: refreshToken_Inr)

lemma indexOf_take: "(indexOf h (CHR ''/'') = 0) = (take 1 h = ''/'')"
  unfolding indexOf_zero_iff by (cases h) auto

lemma refreshToken_Cons:
  "baseElements (snd w) = h # hs \<Longrightarrow>
   refreshToken w =
     Inr (fst w, (snd w)\<lparr>requests := requests (snd w) @
              [\<lparr>url = (if take 1 h = ''/'' then origin (snd w) @ h else h) @ ''token'',
                observe = ''response'', headers = []\<rparr>],
            console := console (snd w) @
              [Refreshing ((if take 1 h = ''/'' then origin (snd w) @ h else h) @ ''token'')]\<rparr>)"
  by (simp add: refreshToken_def Let_def browser_ops indexOf_take)

lemma run_append: "run (xs @ ys) w = run ys (run xs w)"
  by (induction xs arbitrary: w) simp_all

text \<open>Events change no field of the service but the token.\<close>

lemma fire_frame:
  "fst (fire ev w) = (fst w)\<lparr>accessToken := accessToken (fst (fire ev w))\<rparr>"
proof (cases ev)
  case (TimerFires i)
  then show ?thesis
    by (auto simp: Let_def split: sum.splits dest!: refreshToken_Inr)
next
  case (Responds i body)
  then show ?thesis
    by (auto simp: resolve_def fst_catch_callback split: sum.splits
        dest!: then_callback_Inr_fst)
next
  case (Fails i e)
  then show ?thesis by (simp add: reject_def fst_catch_callback)
next
  case Logout
  then show ?thesis by (simp add: logout_def)
next
  case (DocumentChanges bases orig)
  then show ?thesis by simp
qed

lemma run_frame:
  "fst (run evs w) = (fst w)\<lparr>accessToken := accessToken (fst (run evs w))\<rparr>"
proof (induction evs arbitrary: w)
  case Nil
  show ?case by simp
next
  case (Cons ev evs)
  have "fst (run evs (fire ev w))
      = (fst (fire ev w))\<lparr>accessToken := accessToken (fst (run evs (fire ev w)))\<rparr>"
    by (rule Cons.IH)
  also have "fst (fire ev w) = (fst w)\<lparr>accessToken := accessToken (fst (fire ev w))\<rparr>"
    by (rule fire_frame)
  finally show ?case by simp
qed

lemma run_subjects:
  "authenticatedSubject (fst (run evs w)) = authenticatedSubject (fst w)"
  "authenticatedUserSubject (fst (run evs w)) = authenticatedUserSubject (fst w)"
  "config (fst (run evs w)) = config (fst w)"
proof -
  let ?s = "(fst w)\<lparr>accessToken := accessToken (fst (run evs w))\<rparr>"
  have eq: "fst (run evs w) = ?s" by (rule run_frame)
  show "authenticatedSubject (fst (run evs w)) = authenticatedSubject (fst w)"
    by (subst eq) simp
  show "authenticatedUserSubject (fst (run evs w)) = authenticatedUserSubject (fst w)"
    by (subst eq) simp
  show "config (fst (run evs w)) = config (fst w)"
    by (subst eq) simp
qed

text \<open>With no timer and no request outstanding, nothing touches the service again.\<close>

lemma idle_fire:
  "outstanding w = 0 \<Longrightarrow> fst (fire ev w) = fst w \<and> outstanding (fire ev w) = 0"
  by (cases ev) (auto simp: outstanding_def logout_def)

lemma idle_run:
  "outstanding w = 0 \<Longrightarrow> fst (run evs w) = fst w \<and> outstanding (run evs w) = 0"
proof (induction evs arbitrary: w)
  case Nil
  then show ?case by simp
next
  case (Cons ev evs)
  from idle_fire [OF Cons.prems, of ev]
  have "fst (fire ev w) = fst w" and "outstanding (fire ev w) = 0" by simp_all
  with Cons.IH [of "fire ev w"] show ?case by simp
qed

text \<open>
  One failure followed by the firing of its retry timer leads from a world with a
  single request in flight to another such world, the service untouched.
\<close>

lemma failure_cycle:
  assumes "timers (snd w) = []" "requests (snd w) = [q]" "baseElements (snd w) = h # hs"
  shows "fst (fire (TimerFires 0) (fire (Fails 0 e) w)) = fst w
     \<and> timers (snd (fire (TimerFires 0) (fire (Fails 0 e) w))) = []
     \<and> requests (snd (fire (TimerFires 0) (fire (Fails 0 e) w)))
         = [\<lparr>url = (if take 1 h = ''/'' then origin (snd w) @ h else h) @ ''token'',
             observe = ''response'', headers = []\<rparr>]
     \<and> baseElements (snd (fire (TimerFires 0) (fire (Fails 0 e) w))) = h # hs"
  using assms
  by (simp add: refreshToken_Cons remove_nth_def reject_def catch_callback_def Let_def
      browser_ops del: times_number.simps)

lemma failure_cycles:
  "timers (snd w) = [] \<Longrightarrow> requests (snd w) = [q] \<Longrightarrow> baseElements (snd w) = h # hs \<Longrightarrow>
   fst (run (concat (map (\<lambda>e. [Fails 0 e, TimerFires 0]) es)) w) = fst w
   \<and> timers (snd (run (concat (map (\<lambda>e. [Fails 0 e, TimerFires 0]) es)) w)) = []
   \<and> length (requests (snd (run (concat (map (\<lambda>e. [Fails 0 e, TimerFires 0]) es)) w))) = 1"
proof (induction es arbitrary: w q)
  case Nil
  then show ?case by simp
next
  case (Cons e es)
  let ?w = "fire (TimerFires 0) (fire (Fails 0 e) w)"
  from failure_cycle [OF Cons.prems, of e]
  have a: "fst ?w = fst w" and b: "timers (snd ?w) = []"
    and c: "requests (snd ?w)
        = [\<lparr>url = (if take 1 h = ''/'' then origin (snd w) @ h else h) @ ''token'',
            observe = ''response'', headers = []\<rparr>]"
    and d: "baseElements (snd ?w) = h # hs" by simp_all
  from Cons.IH [OF b c d] a show ?case by simp
qed

section \<open>The claims\<close>

text \<open>
  C1 (as the code has it). A successful response with body
  \<open>{token: t, tokenRefreshPeriod: p}\<close> overwrites the held token with \<open>t\<close>, so that
  \<open>getAuthenticationSecret\<close> returns \<open>t\<close>. The handler tests \<open>p\<close> for truthiness, not for
  its sign: for every number other than zero and \<open>NaN\<close> it arms exactly one timer, whose
  delay is the double product \<open>p * 1000\<close>; for zero, \<open>NaN\<close> or an absent period it arms
  none. The delay is \<open>r * 1000\<close> milliseconds exactly when \<open>r\<close> and \<open>r * 1000\<close> are safe
  integers, and the rounded product otherwise. In a world with one request in flight
  and no timer, the response leaves exactly that timer and no request.
\<close>

theorem refresh_success_updates_token:
  "getAuthenticationSecret (resolve (Some \<lparr>token = t, tokenRefreshPeriod = p\<rparr>) w) = t
   \<and> timers (snd (resolve (Some \<lparr>token = t, tokenRefreshPeriod = Some (Num r)\<rparr>) w))
       = (if r = 0 then timers (snd w)
          else if isSafeInteger r \<and> isSafeInteger (r * 1000)
               then timers (snd w) @ [Exactly (Num (r * 1000))]
               else timers (snd w) @ [Rounded r 1000])
   \<and> timers (snd (resolve (Some \<lparr>token = t, tokenRefreshPeriod = Some Infinity\<rparr>) w))
       = timers (snd w) @ [Exactly Infinity]
   \<and> timers (snd (resolve (Some \<lparr>token = t, tokenRefreshPeriod = Some NegInfinity\<rparr>) w))
       = timers (snd w) @ [Exactly NegInfinity]
   \<and> timers (snd (resolve (Some \<lparr>token = t, tokenRefreshPeriod = Some NaN\<rparr>) w))
       = timers (snd w)
   \<and> timers (snd (resolve (Some \<lparr>token = t, tokenRefreshPeriod = None\<rparr>) w))
       = timers (snd w)
   \<and> timers (snd (fire (Responds 0 (Some \<lparr>token = t, tokenRefreshPeriod = Some (Num r)\<rparr>))
                     (this, b\<lparr>timers := [], requests := [q]\<rparr>)))
       = (if r = 0 then []
          else if isSafeInteger r \<and> isSafeInteger (r * 1000)
               then [Exactly (Num (r * 1000))]
               else [Rounded r 1000])
   \<and> requests (snd (fire (Responds 0 (Some \<lparr>token = t, tokenRefreshPeriod = Some (Num r)\<rparr>))
                     (this, b\<lparr>timers := [], requests := [q]\<rparr>))) = []"
  by (simp add: getAuthenticationSecret_def resolve_def then_callback_def Let_def
      truthy_def to_number_def browser_ops remove_nth_def times_1000
      del: times_number.simps, simp)

text \<open>
  The specification's two examples: the body \<open>{token: "xyz", tokenRefreshPeriod: 60}\<close>
  stores \<open>"xyz"\<close> and arms a timer of 60000 ms; with the period 0 no timer is armed.
\<close>

theorem refresh_success_updates_token_witness:
  "getAuthenticationSecret
      (resolve (Some \<lparr>token = Some ''xyz'', tokenRefreshPeriod = Some (Num 60)\<rparr>)
         (constructor \<lparr>authToken = Some ''abc'', authRefreshPeriod = None,
            user = (None :: unit option), logoutUrl = ''/logout''\<rparr>
            (page [''/studio/''] ''https://host'' ''https://host/studio/'')))
     = Some ''xyz''
   \<and> timers (snd (resolve (Some \<lparr>token = Some ''xyz'', tokenRefreshPeriod = Some (Num 60)\<rparr>)
         (constructor \<lparr>authToken = Some ''abc'', authRefreshPeriod = None,
            user = (None :: unit option), logoutUrl = ''/logout''\<rparr>
            (page [''/studio/''] ''https://host'' ''https://host/studio/''))))
     = [Exactly (Num 60000)]
   \<and> timers (snd (resolve (Some \<lparr>token = Some ''xyz'', tokenRefreshPeriod = Some (Num 0)\<rparr>)
         (constructor \<lparr>authToken = Some ''abc'', authRefreshPeriod = None,
            user = (None :: unit option), logoutUrl = ''/logout''\<rparr>
            (page [''/studio/''] ''https://host'' ''https://host/studio/''))))
     = []"
proof -
  let ?w = "constructor \<lparr>authToken = Some ''abc'', authRefreshPeriod = None,
         user = (None :: unit option), logoutUrl = ''/logout''\<rparr>
         (page [''/studio/''] ''https://host'' ''https://host/studio/'')"
  have none_pending: "timers (snd ?w) = []"
    by (simp add: constructor_def Let_def truthy_def page_def console_info_def)
  have safe: "isSafeInteger 60" "isSafeInteger (60 * 1000)"
    by (simp_all add: isSafeInteger_def)
  show ?thesis
    using refresh_success_updates_token [where t = "Some ''xyz''" and p = "Some (Num 60)"
        and w = ?w and r = 60 and this = "fst ?w" and b = "snd ?w"
        and q = "\<lparr>url = [], observe = [], headers = []\<rparr>"]
      refresh_success_updates_token [where t = "Some ''xyz''" and p = "Some (Num 0)"
        and w = ?w and r = 0 and this = "fst ?w" and b = "snd ?w"
        and q = "\<lparr>url = [], observe = [], headers = []\<rparr>"]
      none_pending safe
    by simp
qed

text \<open>
  C1 as the specification words it ("a next refresh is scheduled if and only if \<open>p\<close> is
  positive") fails at \<open>p = -5\<close>: the service is constructed with period 60, its timer
  fires, the request is answered with \<open>{token: "xyz", tokenRefreshPeriod: -5}\<close>, and a
  timer is armed with delay \<open>-5000\<close> ms although \<open>-5\<close> is not positive.
\<close>

theorem refresh_negative_period_counterexample:
  "timers (snd (run [TimerFires 0,
                     Responds 0 (Some \<lparr>token = Some ''xyz'',
                                       tokenRefreshPeriod = Some (Num (- 5))\<rparr>)]
        (constructor
          \<lparr>authToken = Some ''abc'', authRefreshPeriod = Some (Num 60),
           user = (None :: unit option), logoutUrl = ''/logout''\<rparr>
          (page [''/studio/''] ''https://host'' ''https://host/studio/''))))
     = [Exactly (Num (- 5000))]
   \<and> \<not> (0 :: real) < - 5"
  by (simp add: constructor_def Let_def truthy_def to_number_def browser_ops page_def
      remove_nth_def refreshToken_def resolve_def then_callback_def isSafeInteger_def)

text \<open>
  C2. A failing refresh, whatever the error, leaves the service (and so the held token)
  as it was, arms exactly one timer of \<open>30 * 1000\<close> milliseconds and issues no request.
  A failure with status 0 leaves the same browser as any other error, the console line
  that prints the error apart. After any number of failures in a row, each retried when
  its timer fired, the next failure again arms the one timer of 30000 ms and the token
  is still the one held at the start.
\<close>

theorem refresh_failure_retries_in_30s:
  "fst (reject e w) = fst w
   \<and> getAuthenticationSecret (reject e w) = getAuthenticationSecret w
   \<and> timers (snd (reject e w)) = timers (snd w) @ [Exactly (Num 30000)]
   \<and> requests (snd (reject e w)) = requests (snd w)
   \<and> (snd (reject (HttpErrorResponse 0) w))\<lparr>console := []\<rparr>
       = (snd (reject e w))\<lparr>console := []\<rparr>
   \<and> timers (snd (fire (Fails 0 e) (this, b\<lparr>timers := [], requests := [q]\<rparr>)))
       = [Exactly (Num 30000)]
   \<and> requests (snd (fire (Fails 0 e) (this, b\<lparr>timers := [], requests := [q]\<rparr>))) = []
   \<and> timers (snd (run (concat (map (\<lambda>e. [Fails 0 e, TimerFires 0]) es) @ [Fails 0 e])
         (this, b\<lparr>baseElements := h # hs, timers := [], requests := [q]\<rparr>)))
       = [Exactly (Num 30000)]
   \<and> getAuthenticationSecret
        (run (concat (map (\<lambda>e. [Fails 0 e, TimerFires 0]) es) @ [Fails 0 e])
         (this, b\<lparr>baseElements := h # hs, timers := [], requests := [q]\<rparr>))
       = accessToken this"
proof -
  let ?start = "(this, b\<lparr>baseElements := h # hs, timers := [], requests := [q]\<rparr>)"
  let ?w = "run (concat (map (\<lambda>e. [Fails 0 e, TimerFires 0]) es)) ?start"
  have "fst ?w = fst ?start \<and> timers (snd ?w) = [] \<and> length (requests (snd ?w)) = 1"
    by (rule failure_cycles [of ?start q h hs es]) simp_all
  then have s: "fst ?w = this" and t: "timers (snd ?w) = []"
    and r: "length (requests (snd ?w)) = 1" by simp_all
  have last_timers: "timers (snd (fire (Fails 0 e) ?w)) = [Exactly (Num 30000)]"
    using t r by (simp add: reject_timers)
  have last_token: "accessToken (fst (fire (Fails 0 e) ?w)) = accessToken this"
    using s r by (simp add: reject_def fst_catch_callback)
  have single: "fst (reject e w) = fst w"
    "timers (snd (reject e w)) = timers (snd w) @ [Exactly (Num 30000)]"
    "requests (snd (reject e w)) = requests (snd w)"
    "(snd (reject (HttpErrorResponse 0) w))\<lparr>console := []\<rparr>
       = (snd (reject e w))\<lparr>console := []\<rparr>"
    by (simp_all add: reject_def catch_callback_def Let_def browser_ops times_30_1000
        del: times_number.simps)
  have ev: "timers (snd (fire (Fails 0 e) (this, b\<lparr>timers := [], requests := [q]\<rparr>)))
      = [Exactly (Num 30000)]"
    "requests (snd (fire (Fails 0 e) (this, b\<lparr>timers := [], requests := [q]\<rparr>))) = []"
    by (simp_all add: reject_timers reject_requests remove_nth_def)
  show ?thesis
    using last_timers last_token single ev
    by (simp add: run_append getAuthenticationSecret_def)
qed



text \<open>
  C4. \<open>injectAuthHeaders\<close> sets the \<open>Authorization\<close> entry of the caller's map to
  \<open>"bearer "\<close> followed by the token the service holds when it is called: after
  construction with token \<open>"abc"\<close> the empty map becomes
  \<open>{"Authorization": "bearer abc"}\<close>, and after a refresh stored the token \<open>t\<close> the
  header carries \<open>t\<close>.
\<close>

theorem injectAuthHeaders_current_token:
  "injectAuthHeaders w hdrs
     = hdrs(''Authorization'' \<mapsto> ''bearer '' @ to_string (getAuthenticationSecret w))
   \<and> injectAuthHeaders (constructor (cfg\<lparr>authToken := Some ''abc''\<rparr>) b) Map.empty
       = [''Authorization'' \<mapsto> ''bearer abc'']
   \<and> injectAuthHeaders (resolve (Some \<lparr>token = Some t, tokenRefreshPeriod = p\<rparr>) w) hdrs
       = hdrs(''Authorization'' \<mapsto> ''bearer '' @ t)"
  by (auto simp: injectAuthHeaders_def getAuthenticationSecret_def constructor_def Let_def
      to_string_def resolve_def then_callback_def)

text \<open>
  C5 (as the code has it). \<open>login\<close> fails for every user, every credential and every
  state of the service, by throwing \<open>Error("Not supported.")\<close> out of the call: it
  returns no promise, neither a rejected one nor one that could resolve to a user.
\<close>

theorem login_always_throws:
  "login usr credential w = Inl (Error ''Not supported.'')
   \<and> \<not> returns_rejected (login usr credential w)
   \<and> \<not> returns_resolved (login usr credential w)"
  by (simp add: login_def returns_rejected_def returns_resolved_def)

text \<open>
  C5 as the specification words it ("surfaced as a rejected result") fails: a call with
  a user and a credential on a freshly constructed service does not return a rejected
  promise, it throws.
\<close>

theorem login_not_rejected_counterexample:
  "\<not> returns_rejected
       (login ''alice'' ''secret''
          (constructor
            \<lparr>authToken = Some ''abc'', authRefreshPeriod = Some (Num 60),
             user = (None :: unit option), logoutUrl = ''/logout''\<rparr>
            (page [''/studio/''] ''https://host'' ''https://host/studio/'')))
   \<and> login ''alice'' ''secret''
          (constructor
            \<lparr>authToken = Some ''abc'', authRefreshPeriod = Some (Num 60),
             user = (None :: unit option), logoutUrl = ''/logout''\<rparr>
            (page [''/studio/''] ''https://host'' ''https://host/studio/''))
       = (Inl (Error ''Not supported.'') :: js_error + unit promise)"
  by (simp add: login_def returns_rejected_def)

text \<open>
  C6. In every world reachable from a service constructed on a fresh page, the pending
  timers and the requests in flight number at most one together: never two timers, never
  two requests, never a timer beside a request. A timer firing, \<open>logout\<close> and a change
  of the document arm no timer; only the constructor and the two completion handlers do.
\<close>

theorem at_most_one_outstanding:
  "length (timers (snd (run evs (constructor cfg (page bases orig href)))))
     + length (requests (snd (run evs (constructor cfg (page bases orig href))))) \<le> 1
   \<and> length (timers (snd (fire (TimerFires i) w))) \<le> length (timers (snd w))
   \<and> timers (snd (fire Logout w)) = timers (snd w)
   \<and> timers (snd (fire (DocumentChanges bases' orig') w)) = timers (snd w)"
proof -
  have "outstanding (run evs (constructor cfg (page bases orig href))) \<le> 1"
    using outstanding_run [of evs "constructor cfg (page bases orig href)"]
      outstanding_constructor [of cfg bases orig href] by linarith
  then show ?thesis
    unfolding outstanding_def
    using timers_fire_other(1) [of i w] timers_fire_other(2) [of w]
      timers_fire_other(3) [of bases' orig' w]
    by blast
qed

text \<open>
  C7. A successful refresh changes one field of the service, the token. Whatever events
  follow the construction, the authenticated subject and the user subject are as the
  constructor left them; the user was published once; and \<open>getAuthenticatedUserNow\<close>
  returns the configured user, before and after any refresh.
\<close>

theorem refresh_mutates_only_token:
  "fst (resolve (Some a) w) = (fst w)\<lparr>accessToken := token a\<rparr>
   \<and> isAuthenticated (run evs (constructor cfg b)) = isAuthenticated (constructor cfg b)
   \<and> getAuthenticatedUser (run evs (constructor cfg b))
       = getAuthenticatedUser (constructor cfg b)
   \<and> published (getAuthenticatedUser (run evs (constructor cfg b))) = [user cfg]
   \<and> getAuthenticatedUserNow (run evs (constructor cfg b)) = user cfg
   \<and> getAuthenticatedUserNow (resolve (Some a) w) = getAuthenticatedUserNow w"
  by (simp add: isAuthenticated_def getAuthenticatedUser_def getAuthenticatedUserNow_def
      run_subjects, simp add: resolve_def then_callback_def Let_def constructor_def
      next_value_def new_BehaviorSubject_def getValue_def)

text \<open>
  C8. Every call of \<open>refreshToken\<close> on a document with a base element puts one request
  in flight, built from the base and the origin the browser has at that call: its URL
  and its \<open>observe\<close> are the specification's (the origin in front of a base that starts
  with \<open>/\<close>, then \<open>token\<close>; the whole response), and when the document changes between
  two attempts the second request follows the new base and origin. Its headers are not
  the specification's: the service wraps \<open>Accept: application/json\<close> in a Fetch
  \<open>Headers\<close>, of which \<open>HttpClient\<close> reads nothing, so the request carries no header of
  the service's. The last conjunct is the first refresh of a service constructed with
  period 60 on a page whose base is \<open>https://host/studio/\<close>.
\<close>

theorem refresh_request_without_accept_header:
  "refreshToken (this, b\<lparr>baseElements := h # hs, origin := orig\<rparr>)
     = Inr (this, b\<lparr>baseElements := h # hs, origin := orig,
                     requests := requests b @ [(token_request h orig)\<lparr>headers := []\<rparr>],
                     console := console b @ [Refreshing (url (token_request h orig))]\<rparr>)
   \<and> url (token_request (CHR ''/'' # t) orig) = orig @ CHR ''/'' # t @ ''token''
   \<and> requests (snd (fire (TimerFires 0)
        (this, b\<lparr>baseElements := h # hs, origin := orig, timers := [ms], requests := []\<rparr>)))
       = [(token_request h orig)\<lparr>headers := []\<rparr>]
   \<and> requests (snd (run [TimerFires 0, Fails 0 e, DocumentChanges (h' # hs') orig',
                         TimerFires 0]
        (this, b\<lparr>baseElements := h # hs, origin := orig, timers := [ms], requests := []\<rparr>)))
       = [(token_request h' orig')\<lparr>headers := []\<rparr>]
   \<and> (token_request h orig)\<lparr>headers := []\<rparr> \<noteq> token_request h orig
   \<and> requests (snd (fire (TimerFires 0)
        (constructor
          \<lparr>authToken = Some ''abc'', authRefreshPeriod = Some (Num 60),
           user = (None :: unit option), logoutUrl = ''/logout''\<rparr>
          (page [''https://host/studio/''] ''https://host'' ''https://host/studio/''))))
       = [\<lparr>url = ''https://host/studio/token'', observe = ''response'', headers = []\<rparr>]"
proof -
  have general: "refreshToken (this, b\<lparr>baseElements := h # hs, origin := orig\<rparr>)
     = Inr (this, b\<lparr>baseElements := h # hs, origin := orig,
                     requests := requests b @ [(token_request h orig)\<lparr>headers := []\<rparr>],
                     console := console b @ [Refreshing (url (token_request h orig))]\<rparr>)"
    "url (token_request (CHR ''/'' # t) orig) = orig @ CHR ''/'' # t @ ''token''"
    "(token_request h orig)\<lparr>headers := []\<rparr> \<noteq> token_request h orig"
    by (simp_all add: refreshToken_Cons token_request_def)
  have events: "requests (snd (fire (TimerFires 0)
        (this, b\<lparr>baseElements := h # hs, origin := orig, timers := [ms], requests := []\<rparr>)))
       = [(token_request h orig)\<lparr>headers := []\<rparr>]"
    "requests (snd (run [TimerFires 0, Fails 0 e, DocumentChanges (h' # hs') orig',
                         TimerFires 0]
        (this, b\<lparr>baseElements := h # hs, origin := orig, timers := [ms], requests := []\<rparr>)))
       = [(token_request h' orig')\<lparr>headers := []\<rparr>]"
    by (simp_all add: refreshToken_Cons remove_nth_def reject_def catch_callback_def Let_def
        browser_ops token_request_def del: times_number.simps)
  have first: "requests (snd (fire (TimerFires 0)
        (constructor
          \<lparr>authToken = Some ''abc'', authRefreshPeriod = Some (Num 60),
           user = (None :: unit option), logoutUrl = ''/logout''\<rparr>
          (page [''https://host/studio/''] ''https://host'' ''https://host/studio/''))))
       = [\<lparr>url = ''https://host/studio/token'', observe = ''response'', headers = []\<rparr>]"
    by (simp add: constructor_def Let_def truthy_def to_number_def browser_ops page_def
        remove_nth_def refreshToken_Cons del: times_number.simps)
  from general events first show ?thesis by blast
qed

text \<open>
  C9. In every world reached after construction, a new subscriber of \<open>isAuthenticated()\<close>
  receives \<open>true\<close> at once, the subject is not stopped (neither completed nor errored),
  and the only value ever published is the constructor's \<open>true\<close>; \<open>logout\<close> publishes
  nothing either.
\<close>

theorem isAuthenticated_emits_true:
  "subscribe (isAuthenticated (run evs (constructor cfg b))) = [Next True]
   \<and> \<not> isStopped (isAuthenticated (run evs (constructor cfg b)))
   \<and> published (isAuthenticated (run evs (constructor cfg b))) = [True]
   \<and> isAuthenticated (logout w) = isAuthenticated w"
  by (simp add: isAuthenticated_def run_subjects, simp add: constructor_def Let_def
      subscribe_def next_value_def new_BehaviorSubject_def logout_def)

text \<open>
  C10. A 2xx response whose body is an object with neither \<open>token\<close> nor
  \<open>tokenRefreshPeriod\<close> sets the held token to \<open>undefined\<close> and arms no timer, neither a
  refresh nor the 30-second retry. When it answers the one request in flight, no timer
  and no request is left, and whatever happens afterwards the token stays \<open>undefined\<close>
  and nothing is outstanding: the loop has halted.
\<close>

theorem empty_body_clobbers_token_and_halts:
  "getAuthenticationSecret (resolve (Some \<lparr>token = None, tokenRefreshPeriod = None\<rparr>) w)
     = None
   \<and> timers (snd (resolve (Some \<lparr>token = None, tokenRefreshPeriod = None\<rparr>) w))
       = timers (snd w)
   \<and> requests (snd (resolve (Some \<lparr>token = None, tokenRefreshPeriod = None\<rparr>) w))
       = requests (snd w)
   \<and> getAuthenticationSecret
        (run (Responds 0 (Some \<lparr>token = None, tokenRefreshPeriod = None\<rparr>) # evs)
             (this, b\<lparr>timers := [], requests := [q]\<rparr>)) = None
   \<and> timers (snd (run (Responds 0 (Some \<lparr>token = None, tokenRefreshPeriod = None\<rparr>) # evs)
             (this, b\<lparr>timers := [], requests := [q]\<rparr>))) = []
   \<and> requests (snd (run (Responds 0 (Some \<lparr>token = None, tokenRefreshPeriod = None\<rparr>) # evs)
             (this, b\<lparr>timers := [], requests := [q]\<rparr>))) = []"
proof -
  let ?body = "Some \<lparr>token = None, tokenRefreshPeriod = None\<rparr>"
  let ?w1 = "fire (Responds 0 ?body) (this, b\<lparr>timers := [], requests := [q]\<rparr>)"
  have w1: "?w1 = (this\<lparr>accessToken := None\<rparr>,
      console_info NoRefreshPeriod (b\<lparr>timers := [], requests := []\<rparr>))"
    by (simp add: resolve_def then_callback_def Let_def truthy_def remove_nth_def)
  then have idle: "outstanding ?w1 = 0"
    by (simp add: outstanding_def console_info_def)
  from idle_run [OF idle, of evs]
  have "fst (run evs ?w1) = fst ?w1" and "outstanding (run evs ?w1) = 0" by simp_all
  with w1 have "accessToken (fst (run evs ?w1)) = None"
    and "timers (snd (run evs ?w1)) = []" and "requests (snd (run evs ?w1)) = []"
    by (simp_all add: outstanding_def)
  moreover have "getAuthenticationSecret (resolve ?body w) = None"
    "timers (snd (resolve ?body w)) = timers (snd w)"
    "requests (snd (resolve ?body w)) = requests (snd w)"
    by (simp_all add: getAuthenticationSecret_def resolve_def then_callback_def Let_def
        truthy_def browser_ops)
  ultimately show ?thesis by (simp add: getAuthenticationSecret_def)
qed

end
